theory Spec2Isabelle
  imports Main
begin

section \<open>Data model\<close>

text \<open>
  The module \<^verbatim>\<open>appnlib/core/graph.py\<close> translates between records and an rdflib graph.
  An identifier (\<^verbatim>\<open>URIRef\<close>, a subclass of \<^verbatim>\<open>str\<close>) is a string. A Python value read off
  a record is \<^verbatim>\<open>None\<close>, a scalar (kept as its text) or a collection with \<^verbatim>\<open>__len__\<close>.
  An object of a triple is an identifier reference or a literal with its datatype tag.
\<close>

type_synonym uri = string

datatype pyval = PNone | PStr string | PList "pyval list"

datatype node = URIRef uri | Literal string uri

type_synonym triple = "uri \<times> uri \<times> node"

text \<open>
  The graph container is a set of triples. It is kept as a duplicate-free list in
  insertion order, so that the order in which the container is iterated is fixed.
\<close>

type_synonym graph = "triple list"

definition RDF_type :: uri where
  "RDF_type = ''http://www.w3.org/1999/02/22-rdf-syntax-ns#type''"

definition graph_add :: "graph \<Rightarrow> triple \<Rightarrow> graph" where
  "graph_add g t = (if t \<in> set g then g else g @ [t])"

text \<open>\<^verbatim>\<open>(identifier, None, None) in graph\<close>\<close>

definition has_subject :: "graph \<Rightarrow> uri \<Rightarrow> bool" where
  "has_subject g s = list_ex (\<lambda>t. fst t = s) g"

text \<open>A generator with \<^verbatim>\<open>unique=True\<close> yields each item at its first occurrence.\<close>

fun unique_acc :: "'a list \<Rightarrow> 'a list \<Rightarrow> 'a list" where
  "unique_acc seen [] = []"
| "unique_acc seen (x # xs) =
     (if x \<in> set seen then unique_acc seen xs else x # unique_acc (x # seen) xs)"

definition unique :: "'a list \<Rightarrow> 'a list" where
  "unique xs = unique_acc [] xs"

definition predicate_objects :: "graph \<Rightarrow> uri \<Rightarrow> (uri \<times> node) list" where
  "predicate_objects g s = unique (map snd (filter (\<lambda>t. fst t = s) g))"

text \<open>\<^verbatim>\<open>graph.subjects(predicate=p, object=o)\<close>, where \<^verbatim>\<open>None\<close> is a wildcard.\<close>

definition subjects :: "graph \<Rightarrow> uri \<Rightarrow> node option \<Rightarrow> uri list" where
  "subjects g p obj =
     map fst (filter (\<lambda>t. fst (snd t) = p \<and> (case obj of None \<Rightarrow> True | Some ob \<Rightarrow> snd (snd t) = ob)) g)"

subsection \<open>Schema\<close>

text \<open>
  Modelled from the spec: the classes \<^verbatim>\<open>FieldInfo\<close> and \<^verbatim>\<open>IDRef\<close> of
  \<^verbatim>\<open>appnlib.core.schema\<close>. A field has its predicate \<^verbatim>\<open>ref\<close>, its \<^verbatim>\<open>range\<close>, which is the
  relation marker or a datatype tag, and the flag \<^verbatim>\<open>repeat\<close>.
\<close>

datatype range_kind = IDRef | Datatype uri

record FieldInfo =
  ref :: uri
  range_f :: range_kind
  repeat :: bool

text \<open>
  Modelled from the spec: the class \<^verbatim>\<open>Schema\<close> of \<^verbatim>\<open>appnlib.core.schema\<close>. The code reads
  \<^verbatim>\<open>__rdf_resource__\<close>, the ordered \<^verbatim>\<open>name_mapping\<close> (field name to FieldInfo), the
  dictionary \<^verbatim>\<open>ref_mapping\<close> (predicate to field name) and the dictionary \<^verbatim>\<open>attrs\<close>
  (field name to FieldInfo). A schema object is truthy.
\<close>

record Schema =
  rdf_resource :: uri
  name_mapping :: "(string \<times> FieldInfo) list"
  ref_mapping :: "uri \<rightharpoonup> string"
  attrs :: "string \<rightharpoonup> FieldInfo"

subsection \<open>Errors\<close>

datatype exc_class = ValueError | AnnotationError | MissingSchema | KeyError | AttributeError | IndexError

datatype error = Raise exc_class string

fun error_kind :: "error \<Rightarrow> exc_class" where
  "error_kind (Raise c m) = c"

fun error_message :: "error \<Rightarrow> string" where
  "error_message (Raise c m) = m"

section \<open>Subject resolver\<close>

text \<open>
  Modelled from the spec: \<^verbatim>\<open>make_ref\<close> of \<^verbatim>\<open>appnlib.core.utils\<close> normalises an identifier to
  the graph's reference kind; on text it is the reference with that text.
\<close>

definition make_ref :: "string \<Rightarrow> uri" where
  "make_ref identifier = identifier"

text \<open>Truthiness of \<^verbatim>\<open>identifier: URIRef | str | None\<close>.\<close>

fun truthy :: "string option \<Rightarrow> bool" where
  "truthy None = False"
| "truthy (Some s) = (s \<noteq> [])"

definition get_subjects :: "graph \<Rightarrow> string option \<Rightarrow> Schema option \<Rightarrow> error + uri list" where
  "get_subjects graph identifier schema =
     (if truthy identifier then
        (let ident = make_ref (the identifier) in
         if \<not> has_subject graph ident then
           Inl (Raise ValueError (''Identifier: '' @ ident @ '' not in graph''))
         else if schema \<noteq> None
                 \<and> (ident, RDF_type, URIRef (rdf_resource (the schema))) \<notin> set graph then
           Inl (Raise ValueError (''Object identified by id: '' @ ident @ '' is not of type: ''
                                   @ rdf_resource (the schema) @ '' in graph''))
         else Inr [ident])
      else
        (let resource = (case schema of None \<Rightarrow> None | Some s \<Rightarrow> Some (URIRef (rdf_resource s)))
         in Inr (unique (subjects graph RDF_type resource))))"

section \<open>Statement folder\<close>

text \<open>
  The attribute mapping is a dictionary. Its keys are field names (\<^verbatim>\<open>str\<close>) or raw
  predicates (\<^verbatim>\<open>URIRef\<close>); the two never compare equal in rdflib. Its values are the
  subject's text, an object of a triple, or a list.
\<close>

datatype key = KStr string | KRef uri

datatype aval = AStr string | ANode node | AList "aval list"

type_synonym attr_map = "key \<rightharpoonup> aval"

definition update_attrs_from_stmt ::
  "uri \<Rightarrow> node \<Rightarrow> attr_map \<Rightarrow> Schema option \<Rightarrow> error + attr_map" where
  "update_attrs_from_stmt pred v item_attrs schema =
     (if pred = RDF_type then Inr item_attrs
      else case schema of
        None \<Rightarrow>
          (case item_attrs (KRef pred) of
             Some (AList xs) \<Rightarrow> Inr (item_attrs(KRef pred \<mapsto> AList (xs @ [ANode v])))
           | Some old \<Rightarrow> Inr (item_attrs(KRef pred \<mapsto> AList ([old] @ [ANode v])))
           | None \<Rightarrow> Inr (item_attrs(KRef pred \<mapsto> ANode v)))
      | Some s \<Rightarrow>
          (case ref_mapping s pred of
             None \<Rightarrow> Inl (Raise KeyError pred)
           | Some pred_str \<Rightarrow>
               (case attrs s pred_str of
                  None \<Rightarrow> Inl (Raise KeyError pred_str)
                | Some info \<Rightarrow>
                    if repeat info then
                      (case item_attrs (KStr pred_str) of
                         Some (AList xs) \<Rightarrow> Inr (item_attrs(KStr pred_str \<mapsto> AList (xs @ [ANode v])))
                       | Some old \<Rightarrow> Inl (Raise AttributeError ''append'')
                       | None \<Rightarrow> Inr (item_attrs(KStr pred_str \<mapsto> AList [ANode v])))
                    else if item_attrs (KStr pred_str) \<noteq> None then
                      Inl (Raise AnnotationError (''Field: '' @ pred_str
                             @ '' not annotated with repeat, but receives collection like value''))
                    else Inr (item_attrs(KStr pred_str \<mapsto> ANode v)))))"

text \<open>The loop over the statements of one subject; an exception ends it.\<close>

fun fold_stmts :: "(uri \<times> node) list \<Rightarrow> attr_map \<Rightarrow> Schema option \<Rightarrow> error + attr_map" where
  "fold_stmts [] item_attrs schema = Inr item_attrs"
| "fold_stmts ((r, v) # stmts) item_attrs schema =
     (case update_attrs_from_stmt r v item_attrs schema of
        Inl e \<Rightarrow> Inl e
      | Inr item_attrs' \<Rightarrow> fold_stmts stmts item_attrs' schema)"

section \<open>Value emitter and encoder\<close>

text \<open>
  The external \<^verbatim>\<open>Describer\<close> holds the graph and the subject the statements are about.
  \<^verbatim>\<open>rel\<close> adds a triple whose object is the value as an identifier reference;
  \<^verbatim>\<open>value\<close> adds a triple whose object is a literal with the given datatype.
\<close>

definition describer_rel :: "graph \<Rightarrow> uri \<Rightarrow> uri \<Rightarrow> string \<Rightarrow> graph" where
  "describer_rel g about p v = graph_add g (about, p, URIRef v)"

definition describer_value :: "graph \<Rightarrow> uri \<Rightarrow> uri \<Rightarrow> string \<Rightarrow> uri \<Rightarrow> graph" where
  "describer_value g about p v datatype_tag = graph_add g (about, p, Literal v datatype_tag)"

fun describer_add_value :: "graph \<Rightarrow> uri \<Rightarrow> pyval \<Rightarrow> FieldInfo \<Rightarrow> graph" where
  "describer_add_value g about PNone info = g"
| "describer_add_value g about (PList items) info =
     foldl (\<lambda>g' item. describer_add_value g' about item info) g items"
| "describer_add_value g about (PStr v) info =
     (case range_f info of
        IDRef \<Rightarrow> describer_rel g about (ref info) v
      | Datatype d \<Rightarrow> describer_value g about (ref info) v d)"

text \<open>
  A record instance: its readable attributes, and its \<^verbatim>\<open>__schema__\<close> attribute when it
  has one.
\<close>

record struct =
  attributes :: "string \<rightharpoonup> pyval"
  schema_attr :: "Schema option"

text \<open>
  Modelled from the spec: \<^verbatim>\<open>get_key_or_attribute\<close> of \<^verbatim>\<open>appnlib.core.utils\<close> reads a named
  attribute off the record. A missing attribute reads as \<^verbatim>\<open>None\<close>, and is an error when
  \<^verbatim>\<open>raise_error_if_missing\<close> is set.
\<close>

definition get_key_or_attribute :: "string \<Rightarrow> struct \<Rightarrow> bool \<Rightarrow> error + pyval" where
  "get_key_or_attribute name struct raise_error_if_missing =
     (case attributes struct name of
        Some v \<Rightarrow> Inr v
      | None \<Rightarrow> if raise_error_if_missing then Inl (Raise KeyError name) else Inr PNone)"

text \<open>
  \<^verbatim>\<open>Describer(graph, about=instance_id)\<close>: the subject is the identifier, and a fresh
  blank node \<open>bnode\<close> when the identifier is falsy. Identifiers are text.
\<close>

fun describer_about :: "uri \<Rightarrow> pyval \<Rightarrow> uri" where
  "describer_about bnode (PStr s) = (if s = [] then bnode else s)"
| "describer_about bnode other = bnode"

definition describer_rdftype :: "graph \<Rightarrow> uri \<Rightarrow> uri \<Rightarrow> graph" where
  "describer_rdftype g about resource = graph_add g (about, RDF_type, URIRef resource)"

text \<open>The loop over \<^verbatim>\<open>schema.name_mapping.items()\<close>.\<close>

fun add_fields :: "graph \<Rightarrow> uri \<Rightarrow> struct \<Rightarrow> (string \<times> FieldInfo) list \<Rightarrow> error + graph" where
  "add_fields g about struct [] = Inr g"
| "add_fields g about struct ((name, info) # rest) =
     (case get_key_or_attribute name struct True of
        Inl e \<Rightarrow> Inl e
      | Inr v \<Rightarrow> add_fields (describer_add_value g about v info) about struct rest)"

text \<open>Lines 165 to 172: the identifier under \<^verbatim>\<open>ID\<close>, else under \<^verbatim>\<open>id\<close>, else an error.\<close>

definition extract_id :: "struct \<Rightarrow> error + pyval" where
  "extract_id struct =
     (if get_key_or_attribute ''ID'' struct False \<noteq> Inr PNone then
        get_key_or_attribute ''ID'' struct False
      else if get_key_or_attribute ''id'' struct False \<noteq> Inr PNone then
        get_key_or_attribute ''id'' struct False
      else Inl (Raise ValueError ''Missing ID/id field in object in from_struct operation''))"

text \<open>
  \<^verbatim>\<open>validate_schema\<close> belongs to \<^verbatim>\<open>appnlib.core.utils\<close>, another module: it is a
  parameter, returning the error it raises, if any. \<open>bnode\<close> is the blank node a
  Describer would create. The identifier of a new graph is not part of the model.
\<close>

definition from_struct ::
  "(struct \<Rightarrow> Schema \<Rightarrow> error option) \<Rightarrow> uri \<Rightarrow> struct \<Rightarrow> Schema option \<Rightarrow> graph option
     \<Rightarrow> error + graph" where
  "from_struct validate_schema bnode struct schema graph =
     (case (case schema of
              Some s \<Rightarrow> (case validate_schema struct s of Some e \<Rightarrow> Inl e | None \<Rightarrow> Inr s)
            | None \<Rightarrow>
                (case schema_attr struct of
                   None \<Rightarrow> Inl (Raise MissingSchema ''A schema must be provided to convert struct to graph'')
                 | Some s \<Rightarrow> Inr s)) of
        Inl e \<Rightarrow> Inl e
      | Inr s \<Rightarrow>
          (let g = (case graph of None \<Rightarrow> [] | Some g0 \<Rightarrow> g0) in
           case extract_id struct of
             Inl e \<Rightarrow> Inl e
           | Inr instance_id \<Rightarrow>
               (let about = describer_about bnode instance_id;
                    g1 = describer_rdftype g about (rdf_resource s)
                in add_fields g1 about struct (name_mapping s))))"

section \<open>Subgraph extractor and decoders\<close>

definition sub_graph :: "graph \<Rightarrow> string \<Rightarrow> error + graph" where
  "sub_graph graph identifier =
     (let ident = make_ref identifier in
      if \<not> has_subject graph ident then
        Inl (Raise ValueError (''Identifier '' @ ident @ '' not present in graph''))
      else Inr (foldl (\<lambda>sub (pred, ob). graph_add sub (ident, pred, ob)) [] (predicate_objects graph ident)))"






section \<open>Specification-side definitions\<close>

text \<open>
  What the schema-agnostic fold is said to store for the values of one predicate, in
  their order: nothing for no value, the value itself for one, the sequence for more.
\<close>

fun grouped :: "node list \<Rightarrow> aval option" where
  "grouped [] = None"
| "grouped [v] = Some (ANode v)"
| "grouped vs = Some (AList (map ANode vs))"

definition values_of :: "uri \<Rightarrow> (uri \<times> node) list \<Rightarrow> node list" where
  "values_of p stmts = map snd (filter (\<lambda>s. fst s = p) stmts)"





section \<open>Graphs as objects of a store\<close>

text \<open>
  A graph is a mutable object. The store holds the graphs that exist, an address is an
  index into it. \<^verbatim>\<open>Graph()\<close> allocates an empty graph, \<^verbatim>\<open>add\<close> writes one graph of
  the store; the decoders receive the address of their graph and return the store
  they leave behind.
\<close>

type_synonym store = "graph list"

definition new_graph :: "store \<Rightarrow> store \<times> nat" where
  "new_graph st = (st @ [[]], length st)"

definition store_add :: "store \<Rightarrow> nat \<Rightarrow> triple \<Rightarrow> store" where
  "store_add st a t = st[a := graph_add (st ! a) t]"

definition sub_graph_st :: "store \<Rightarrow> nat \<Rightarrow> string \<Rightarrow> store \<times> (error + nat)" where
  "sub_graph_st st graph identifier =
     (let ident = make_ref identifier in
      if \<not> has_subject (st ! graph) ident then
        (st, Inl (Raise ValueError (''Identifier '' @ ident @ '' not present in graph'')))
      else
        (let tuples = predicate_objects (st ! graph) ident;
             (st1, sub) = new_graph st;
             st2 = foldl (\<lambda>s (pred, ob). store_add s sub (ident, pred, ob)) st1 tuples
         in (st2, Inr sub)))"




section \<open>Round trip: definitions\<close>














section \<open>Subject resolution: theorems\<close>

lemma set_unique_acc: "set (unique_acc seen xs) = set xs - set seen"
  by (induction seen xs rule: unique_acc.induct) auto

lemma set_unique: "set (unique xs) = set xs"
  by (simp add: unique_def set_unique_acc)

lemma distinct_unique_acc: "distinct (unique_acc seen xs)"
  by (induction seen xs rule: unique_acc.induct) (auto simp: set_unique_acc)

lemma distinct_unique: "distinct (unique xs)"
  by (simp add: unique_def distinct_unique_acc)

lemma has_subject_iff: "has_subject g s \<longleftrightarrow> (\<exists>p ob. (s, p, ob) \<in> set g)"
  by (force simp: has_subject_def list_ex_iff)

lemma set_subjects_any: "set (subjects g p None) = {s. \<exists>ob. (s, p, ob) \<in> set g}"
  by (force simp: subjects_def)

lemma set_subjects_obj: "set (subjects g p (Some ob)) = {s. (s, p, ob) \<in> set g}"
  by (force simp: subjects_def)


text \<open>
  C2, as amended. For a non-empty identifier and no schema the resolver returns the
  identifier alone when some triple has it as subject, and raises the not-found
  ValueError otherwise. With a schema only it returns the subjects whose rdf:type is
  the schema's resource, with neither it returns the subjects that carry any rdf:type;
  both without repetition, and possibly empty.
\<close>

theorem subject_resolution_cases:
  "(i \<noteq> [] \<longrightarrow>
      get_subjects g (Some i) None =
        (if \<exists>p ob. (i, p, ob) \<in> set g then Inr [i]
         else Inl (Raise ValueError (''Identifier: '' @ i @ '' not in graph''))))
   \<and> (\<exists>ids. get_subjects g None (Some S) = Inr ids \<and> distinct ids
         \<and> set ids = {s. (s, RDF_type, URIRef (rdf_resource S)) \<in> set g})
   \<and> (\<exists>ids. get_subjects g None None = Inr ids \<and> distinct ids
         \<and> set ids = {s. \<exists>ob. (s, RDF_type, ob) \<in> set g})"
  by (simp add: get_subjects_def make_ref_def has_subject_iff set_unique distinct_unique
      set_subjects_any set_subjects_obj)

theorem subject_resolution_cases_witness:
  "''a'' \<noteq> [] \<and> get_subjects [(''a'', ''p'', URIRef ''b'')] (Some ''a'') None = Inr [''a'']"
  using subject_resolution_cases [of "''a''" "[(''a'', ''p'', URIRef ''b'')]"]
  by simp

text \<open>
  C2 as stated fails at the empty identifier: it is no subject of the graph, and the
  resolver returns the typed subjects instead of raising.
\<close>

theorem empty_identifier_counterexample:
  "\<not> has_subject [(''a'', RDF_type, URIRef ''T'')] ''''
   \<and> get_subjects [(''a'', RDF_type, URIRef ''T'')] (Some '''') None = Inr [''a'']"
  by (simp add: get_subjects_def has_subject_def subjects_def unique_def)

text \<open>
  C8, as amended. When a non-empty identifier is a subject of the graph and the triple
  (identifier, rdf:type, schema resource) is absent, the resolver raises a ValueError
  whose message differs from the message of every not-found ValueError; the exception
  class is ValueError in both cases.
\<close>

theorem type_mismatch_error:
  assumes "i \<noteq> []" and "(i, p, ob) \<in> set g"
    and "(i, RDF_type, URIRef (rdf_resource S)) \<notin> set g"
  shows "get_subjects g (Some i) (Some S) =
           Inl (Raise ValueError (''Object identified by id: '' @ i @ '' is not of type: ''
                                   @ rdf_resource S @ '' in graph''))
         \<and> ''Object identified by id: '' @ i @ '' is not of type: '' @ rdf_resource S @ '' in graph''
             \<noteq> ''Identifier: '' @ j @ '' not in graph''"
proof -
  have "has_subject g i" using assms(2) by (auto simp: has_subject_iff)
  then show ?thesis using assms(1,3)
    by (simp add: get_subjects_def make_ref_def)
qed

theorem type_mismatch_error_witness:
  "''a'' \<noteq> [] \<and> (''a'', ''p'', URIRef ''b'') \<in> set [(''a'', ''p'', URIRef ''b'')]
   \<and> (''a'', RDF_type, URIRef ''T'') \<notin> set [(''a'', ''p'', URIRef ''b'')]
   \<and> get_subjects [(''a'', ''p'', URIRef ''b'')] (Some ''a'')
        (Some \<lparr>rdf_resource = ''T'', name_mapping = [], ref_mapping = Map.empty, attrs = Map.empty\<rparr>) =
       Inl (Raise ValueError ''Object identified by id: a is not of type: T in graph'')"
  using type_mismatch_error [of "''a''" "''p''" "URIRef ''b''" "[(''a'', ''p'', URIRef ''b'')]"
      "\<lparr>rdf_resource = ''T'', name_mapping = [], ref_mapping = Map.empty, attrs = Map.empty\<rparr>"]
  by (simp add: RDF_type_def)

text \<open>
  C8 as stated fails: the error for a subject of another type and the error for an
  identifier that is no subject are of the same kind, ValueError.
\<close>

theorem same_error_kind_counterexample:
  "get_subjects [(''a'', ''p'', URIRef ''b'')] (Some ''a'')
      (Some \<lparr>rdf_resource = ''T'', name_mapping = [], ref_mapping = Map.empty, attrs = Map.empty\<rparr>)
     = Inl (Raise ValueError ''Object identified by id: a is not of type: T in graph'')
   \<and> get_subjects [(''a'', ''p'', URIRef ''b'')] (Some ''z'')
      (Some \<lparr>rdf_resource = ''T'', name_mapping = [], ref_mapping = Map.empty, attrs = Map.empty\<rparr>)
     = Inl (Raise ValueError ''Identifier: z not in graph'')
   \<and> error_kind (Raise ValueError ''Object identified by id: a is not of type: T in graph'')
     = error_kind (Raise ValueError ''Identifier: z not in graph'')"
  by (simp add: get_subjects_def has_subject_def make_ref_def RDF_type_def)

section \<open>Statement folder: theorems\<close>

lemma fold_stmts_append:
  "fold_stmts (xs @ ys) a sch =
     (case fold_stmts xs a sch of Inl e \<Rightarrow> Inl e | Inr a' \<Rightarrow> fold_stmts ys a' sch)"
  by (induction xs arbitrary: a) (auto split: sum.splits)

lemma grouped_snoc:
  "grouped (vs @ [v]) =
     (case grouped vs of
        None \<Rightarrow> Some (ANode v)
      | Some (AList xs) \<Rightarrow> Some (AList (xs @ [ANode v]))
      | Some old \<Rightarrow> Some (AList [old, ANode v]))"
  by (induction vs rule: grouped.induct) auto

lemma update_no_schema:
  "update_attrs_from_stmt p v a None =
     (if p = RDF_type then Inr a
      else Inr (a(KRef p \<mapsto>
        (case a (KRef p) of
           None \<Rightarrow> ANode v
         | Some (AList xs) \<Rightarrow> AList (xs @ [ANode v])
         | Some old \<Rightarrow> AList [old, ANode v]))))"
  by (auto simp: update_attrs_from_stmt_def split: option.splits aval.splits)







text \<open>
  C4. Without a schema the fold never fails; a statement whose predicate is rdf:type
  leaves the mapping as it is; under each other predicate, as raw key, the mapping
  holds the single value when the predicate occurs once, and otherwise the sequence
  of its values in the order of the statements; the keys that are field names are
  untouched.
\<close>

theorem schema_agnostic_grouping:
  assumes "\<forall>q. a0 (KRef q) = None"
  shows "\<exists>a. fold_stmts stmts a0 None = Inr a
     \<and> (\<forall>p. a (KRef p) = (if p = RDF_type then None else grouped (values_of p stmts)))
     \<and> (\<forall>k. a (KStr k) = a0 (KStr k))"
proof (induction stmts rule: rev_induct)
  case Nil
  then show ?case using assms by (simp add: values_of_def)
next
  case (snoc x xs)
  then obtain a where a: "fold_stmts xs a0 None = Inr a"
    and g: "\<forall>p. a (KRef p) = (if p = RDF_type then None else grouped (values_of p xs))"
    and k: "\<forall>k. a (KStr k) = a0 (KStr k)" by blast
  obtain r v where x: "x = (r, v)" by (cases x)
  show ?case
  proof (cases "r = RDF_type")
    case True
    then show ?thesis using a g k x
      by (auto simp: fold_stmts_append update_no_schema values_of_def)
  next
    case False
    have "fold_stmts (xs @ [x]) a0 None = Inr (a(KRef r \<mapsto>
        (case a (KRef r) of None \<Rightarrow> ANode v | Some (AList ys) \<Rightarrow> AList (ys @ [ANode v])
         | Some old \<Rightarrow> AList [old, ANode v])))"
      using a x False by (simp add: fold_stmts_append update_no_schema)
    moreover have "values_of r (xs @ [x]) = values_of r xs @ [v]"
      using x by (simp add: values_of_def)
    moreover have "\<And>p. p \<noteq> r \<Longrightarrow> values_of p (xs @ [x]) = values_of p xs"
      using x by (simp add: values_of_def)
    ultimately show ?thesis using g k False
      by (auto simp: grouped_snoc split: option.splits aval.splits)
  qed
qed


theorem schema_agnostic_grouping_witness:
  "(\<forall>q. [KStr ''id'' \<mapsto> AStr ''s''] (KRef q) = None)
   \<and> (\<exists>a. fold_stmts [(RDF_type, URIRef ''T''), (''p'', URIRef ''x''), (''q'', URIRef ''y''),
                        (''p'', URIRef ''z''), (''p'', URIRef ''w'')]
              [KStr ''id'' \<mapsto> AStr ''s''] None = Inr a
        \<and> a (KRef RDF_type) = None
        \<and> a (KRef ''p'') = Some (AList [ANode (URIRef ''x''), ANode (URIRef ''z''), ANode (URIRef ''w'')])
        \<and> a (KRef ''q'') = Some (ANode (URIRef ''y''))
        \<and> a (KStr ''id'') = Some (AStr ''s''))"
  using schema_agnostic_grouping [of "[KStr ''id'' \<mapsto> AStr ''s'']"
      "[(RDF_type, URIRef ''T''), (''p'', URIRef ''x''), (''q'', URIRef ''y''),
        (''p'', URIRef ''z''), (''p'', URIRef ''w'')]"]
  by (simp add: values_of_def RDF_type_def update_attrs_from_stmt_def)

section \<open>Value emitter: theorems\<close>






section \<open>Subgraph extractor and mutation: theorems\<close>

lemma set_graph_add: "set (graph_add g t) = insert t (set g)"
  by (auto simp: graph_add_def)

lemma distinct_graph_add: "distinct g \<Longrightarrow> distinct (graph_add g t)"
  by (simp add: graph_add_def)

lemma set_foldl_graph_add: "set (foldl graph_add g ts) = set g \<union> set ts"
  by (induction ts arbitrary: g) (auto simp: set_graph_add)

lemma distinct_foldl_graph_add: "distinct g \<Longrightarrow> distinct (foldl graph_add g ts)"
  by (induction ts arbitrary: g) (auto simp: distinct_graph_add)

lemma foldl_add_pairs:
  "foldl (\<lambda>sub (pred, ob). graph_add sub (i, pred, ob)) g ts = foldl graph_add g (map (\<lambda>(pred, ob). (i, pred, ob)) ts)"
  by (induction ts arbitrary: g) (auto)

lemma set_predicate_objects: "set (predicate_objects g s) = {(p, ob). (s, p, ob) \<in> set g}"
  by (force simp: predicate_objects_def set_unique)

lemma sub_graph_result:
  "sub_graph g i =
     (if \<exists>p ob. (i, p, ob) \<in> set g
      then Inr (foldl graph_add [] (map (\<lambda>(pred, ob). (i, pred, ob)) (predicate_objects g i)))
      else Inl (Raise ValueError (''Identifier '' @ i @ '' not present in graph'')))"
  by (simp add: sub_graph_def make_ref_def has_subject_iff foldl_add_pairs)

lemma store_add_last: "store_add (st @ [g]) (length st) t = st @ [graph_add g t]"
  by (simp add: store_add_def)

lemma foldl_store_add_last:
  "foldl (\<lambda>s (pred, ob). store_add s (length st) (i, pred, ob)) (st @ [g]) ts
     = st @ [foldl (\<lambda>sub (pred, ob). graph_add sub (i, pred, ob)) g ts]"
  by (induction ts arbitrary: g) (auto simp: store_add_last)

lemma sub_graph_st_refines:
  "sub_graph_st st a i =
     (case sub_graph (st ! a) i of
        Inl e \<Rightarrow> (st, Inl e)
      | Inr sub \<Rightarrow> (st @ [sub], Inr (length st)))"
  by (simp add: sub_graph_st_def sub_graph_def new_graph_def Let_def foldl_store_add_last)

text \<open>
  C7. For a graph of the store: when no triple has the identifier as subject the
  extractor raises the ValueError and the store stays as it is; otherwise it returns
  the address of a new graph, which is not the address of the input, and that graph
  holds, without repetition, exactly the triples of the input whose subject is the
  identifier.
\<close>

theorem subgraph_extraction:
  assumes "a < length st"
  shows "(\<not> (\<exists>p ob. (i, p, ob) \<in> set (st ! a)) \<longrightarrow>
            sub_graph_st st a i = (st, Inl (Raise ValueError (''Identifier '' @ i @ '' not present in graph''))))
       \<and> ((\<exists>p ob. (i, p, ob) \<in> set (st ! a)) \<longrightarrow>
            (\<exists>st' b. sub_graph_st st a i = (st', Inr b) \<and> b \<noteq> a \<and> length st \<le> b \<and> b < length st'
               \<and> distinct (st' ! b)
               \<and> set (st' ! b) = {(s, p, ob). s = i \<and> (i, p, ob) \<in> set (st ! a)}))"
proof -
  let ?sub = "foldl graph_add [] (map (\<lambda>(pred, ob). (i, pred, ob)) (predicate_objects (st ! a) i))"
  have d: "distinct ?sub" by (rule distinct_foldl_graph_add) simp
  have s: "set ?sub = {(s, p, ob). s = i \<and> (i, p, ob) \<in> set (st ! a)}"
    by (auto simp: set_foldl_graph_add set_predicate_objects)
  show ?thesis using assms d s
    by (auto simp: sub_graph_st_refines sub_graph_result)
qed

theorem subgraph_extraction_witness:
  "(0::nat) < length [[(''a'', ''p'', URIRef ''b''), (''c'', ''q'', URIRef ''d''), (''a'', ''q'', Literal ''x'' ''t'')]]
   \<and> sub_graph_st [[(''a'', ''p'', URIRef ''b''), (''c'', ''q'', URIRef ''d''), (''a'', ''q'', Literal ''x'' ''t'')]] 0 ''a''
       = ([[(''a'', ''p'', URIRef ''b''), (''c'', ''q'', URIRef ''d''), (''a'', ''q'', Literal ''x'' ''t'')],
           [(''a'', ''p'', URIRef ''b''), (''a'', ''q'', Literal ''x'' ''t'')]], Inr 1)
   \<and> sub_graph_st [[(''a'', ''p'', URIRef ''b''), (''c'', ''q'', URIRef ''d''), (''a'', ''q'', Literal ''x'' ''t'')]] 0 ''z''
       = ([[(''a'', ''p'', URIRef ''b''), (''c'', ''q'', URIRef ''d''), (''a'', ''q'', Literal ''x'' ''t'')]],
          Inl (Raise ValueError ''Identifier z not present in graph''))"
  using subgraph_extraction [of 0 "[[(''a'', ''p'', URIRef ''b''), (''c'', ''q'', URIRef ''d''), (''a'', ''q'', Literal ''x'' ''t'')]]" "''a''"]
    subgraph_extraction [of 0 "[[(''a'', ''p'', URIRef ''b''), (''c'', ''q'', URIRef ''d''), (''a'', ''q'', Literal ''x'' ''t'')]]" "''z''"]
  by (simp add: sub_graph_st_def make_ref_def has_subject_def predicate_objects_def unique_def
      new_graph_def store_add_def graph_add_def Let_def)



section \<open>Encoder: theorems\<close>









section \<open>Round trip: theorems\<close>




























end
